theory Spec2Isabelle
  imports Main "HOL-Library.Sublist"
begin

section \<open>DereplicatorAdapter: the adapter and the world it acts on\<close>

text \<open>
  The source is \<^verbatim>\<open>src/utils/DereplicatorAdapter.cpp\<close>: the class
  \<^verbatim>\<open>TOPPDereplicatorAdapter\<close> with \<^verbatim>\<open>registerOptionsAndFlags_\<close> and
  \<^verbatim>\<open>main_\<close>. The function \<^verbatim>\<open>main_\<close> is effectful: it reads the parsed
  parameters, writes log lines, asks the framework for a temporary directory, sets the
  member \<^verbatim>\<open>debug_level_\<close>, launches a process and touches files. The embedding
  passes the state explicitly and records every effect, in order, in a trace, so that
  "nothing was deleted" and "the process was launched with these arguments" are statements
  about a value. An identifier cannot end in an underscore here, so the members and
  methods \<^verbatim>\<open>main_\<close>, \<^verbatim>\<open>getStringOption_\<close>, \<^verbatim>\<open>debug_level_\<close> and the like appear
  without it.
\<close>

subsection \<open>Files and directories\<close>

type_synonym path = string
type_synonym bytes = string

text \<open>
  The disk as far as the adapter can see it: the regular files with their content, and the
  directories that exist, each under the one name that the operating system resolves its
  paths to. Two paths that name the same entry, such as \<^verbatim>\<open>d/f\<close> and \<^verbatim>\<open>d/./f\<close>,
  resolve to the same name. Symbolic links in the last component of a path are outside the
  model.
\<close>

record filesystem =
  files :: "path \<rightharpoonup> bytes"
  dirs :: "path set"

subsection \<open>Exit codes\<close>

text \<open>
  Modelled from the spec: the enumeration \<^verbatim>\<open>TOPPBase::ExitCodes\<close> is declared in
  the framework header, which is not part of the source at hand. The three enumerators
  that \<^verbatim>\<open>main_\<close> names are kept by name; every other status that the process runner may
  hand back is \<open>ExternalProcessFailed code\<close> (section 7 of the spec).
\<close>

datatype ExitCodes =
  EXECUTION_OK
| ILLEGAL_PARAMETERS
| MISSING_PARAMETERS
| ExternalProcessFailed int

subsection \<open>Effects\<close>

datatype effect =
  WriteLog string
| MakeTempDir path
| SetDebugLevel int
| RunExternalProcess path "string list"
| RemoveFile path
| OpenOutput path
| CopyStream path path
| RemoveTempDir path

subsection \<open>External collaborators\<close>

text \<open>
  What lies outside the repository is a parameter of the model:
  \<^item> \<open>canonicalFilePath\<close> is Qt's \<^verbatim>\<open>QFileInfo(p).canonicalFilePath()\<close>, which looks
    at the disk;
  \<^item> \<open>uniqueTempDir\<close> is the name that the framework picks for a new temporary
    directory;
  \<^item> \<open>externalProcess\<close> is the launched program together with the framework's
    runner: given the debug level, the executable and the argument vector it changes the
    disk in any way it likes and reports an exit code;
  \<^item> \<open>resolve\<close> is the operating system's name resolution during the output step: the
    name under which the disk holds what a path denotes;
  \<^item> \<open>removable\<close> is the operating system's answer to \<^verbatim>\<open>remove\<close> on a resolved
    name: whether the entry there, a file or a directory, may be deleted (permissions; a
    directory must be empty);
  \<^item> \<open>writable\<close> is the operating system's answer to opening a resolved name for
    writing, as far as it does not depend on the name being a directory: the parent
    directory exists, permissions allow it.
\<close>

record env =
  canonicalFilePath :: "filesystem \<Rightarrow> path \<Rightarrow> path"
  uniqueTempDir :: "filesystem \<Rightarrow> path"
  externalProcess :: "int \<Rightarrow> path \<Rightarrow> string list \<Rightarrow> filesystem \<Rightarrow> ExitCodes \<times> filesystem"
  resolve :: "path \<Rightarrow> path"
  removable :: "filesystem \<Rightarrow> path \<Rightarrow> bool"
  writable :: "filesystem \<Rightarrow> path \<Rightarrow> bool"

subsection \<open>The tool object\<close>

text \<open>
  The state that \<^verbatim>\<open>main_\<close> reads and writes: the parameter values the user gave
  (a parsed map: the order of the command line is gone when \<^verbatim>\<open>main_\<close> runs), the
  member \<^verbatim>\<open>debug_level_\<close>, the temporary directories registered for automatic removal,
  the disk, and the trace of effects so far.
\<close>

record tool =
  param :: "string \<rightharpoonup> string"
  debug_level :: int
  temp_dirs :: "path list"
  disk :: filesystem
  effects :: "effect list"

subsection \<open>Registered options\<close>

text \<open>
  \<^verbatim>\<open>registerOptionsAndFlags_\<close> registers four options; the third argument of each
  \<^verbatim>\<open>register...File_\<close> call is the default value. Name and default are what
  \<^verbatim>\<open>main_\<close> depends on; the descriptions, the valid formats and the tag
  \<^verbatim>\<open>skipexists\<close> are read by the framework's parser before \<^verbatim>\<open>main_\<close> runs.
\<close>

definition registerOptionsAndFlags :: "(string \<times> string) list" where
  "registerOptionsAndFlags =
     [(''in'', ''''),
      (''database'', ''''),
      (''out'', ''''),
      (''executable'', ''dereplicator.py'')]"

text \<open>
  Modelled from the spec: \<^verbatim>\<open>TOPPBase::getStringOption_\<close> is framework code outside the
  source at hand. It yields the value the user gave, and the registered default otherwise.
\<close>

definition getStringOption :: "tool \<Rightarrow> string \<Rightarrow> string" where
  "getStringOption t name =
     (case param t name of
        Some v \<Rightarrow> v
      | None \<Rightarrow> (case map_of registerOptionsAndFlags name of Some d \<Rightarrow> d | None \<Rightarrow> []))"

text \<open>
  Modelled from the spec: \<^verbatim>\<open>TOPPBase::writeLog_\<close> is framework code outside the source
  at hand. It emits one line and changes nothing else.
\<close>

definition writeLog :: "string \<Rightarrow> tool \<Rightarrow> tool" where
  "writeLog msg t = t\<lparr>effects := effects t @ [WriteLog msg]\<rparr>"

text \<open>
  Modelled from the spec: \<^verbatim>\<open>TOPPBase::makeAutoRemoveTempDirectory_\<close> is framework code
  outside the source at hand. It creates a new directory and registers it for removal at
  the end of the run (section 4.1, step 3 of the spec).
\<close>

definition makeAutoRemoveTempDirectory :: "env \<Rightarrow> tool \<Rightarrow> path \<times> tool" where
  "makeAutoRemoveTempDirectory e t =
     (let d = uniqueTempDir e (disk t)
      in (d, t\<lparr>temp_dirs := temp_dirs t @ [d],
                disk := (disk t)\<lparr>dirs := insert d (dirs (disk t))\<rparr>,
                effects := effects t @ [MakeTempDir d]\<rparr>))"

text \<open>
  Modelled from the spec: \<^verbatim>\<open>TOPPBase::runExternalProcess_\<close> is framework code outside
  the source at hand. It runs the program once, synchronously, at the current debug level,
  and hands back a status (section 4.1, step 5 of the spec).
\<close>

definition runExternalProcess :: "env \<Rightarrow> path \<Rightarrow> string list \<Rightarrow> tool \<Rightarrow> ExitCodes \<times> tool" where
  "runExternalProcess e executable arguments t =
     (let (exit_code, d) = externalProcess e (debug_level t) executable arguments (disk t)
      in (exit_code, t\<lparr>disk := d,
                        effects := effects t @ [RunExternalProcess executable arguments]\<rparr>))"

subsection \<open>The file operations of the output step\<close>

text \<open>
  C's \<^verbatim>\<open>remove\<close> on a path: when the operating system allows it, the file at that
  name is gone, or the empty directory at that name is gone; otherwise nothing changes.
  \<^verbatim>\<open>main_\<close> ignores the return value.
\<close>

definition os_remove :: "env \<Rightarrow> path \<Rightarrow> filesystem \<Rightarrow> filesystem" where
  "os_remove e p d =
     (let k = resolve e p
      in if removable e d k
         then d\<lparr>files := (files d)(k := None), dirs := dirs d - {k}\<rparr>
         else d)"

definition remove_file :: "env \<Rightarrow> path \<Rightarrow> tool \<Rightarrow> tool" where
  "remove_file e p t =
     t\<lparr>disk := os_remove e p (disk t),
       effects := effects t @ [RemoveFile p]\<rparr>"

text \<open>
  \<^verbatim>\<open>std::ifstream src(tmp_out, binary); std::ofstream dst(out, binary); dst << src.rdbuf();\<close>
  Opening \<open>src\<close> fails when no file is there. Opening \<open>dst\<close> fails when the name
  is a directory or the operating system refuses; when it succeeds the file exists
  afterwards and is empty. Neither failure is looked at. The insertion does nothing unless
  both streams are open; then it copies the bytes that \<open>src\<close> holds at that moment,
  after \<open>dst\<close> was opened.
\<close>

definition copy_stream :: "env \<Rightarrow> path \<Rightarrow> path \<Rightarrow> tool \<Rightarrow> tool" where
  "copy_stream e tmp_out out t =
     (let d = disk t;
          r = resolve e tmp_out;
          k = resolve e out;
          src_open = (files d r \<noteq> None);
          dst_open = (k \<notin> dirs d \<and> writable e d k);
          d1 = (if dst_open then d\<lparr>files := (files d)(k \<mapsto> [])\<rparr> else d);
          d2 = (if src_open \<and> dst_open
                then (case files d1 r of
                        None \<Rightarrow> d1
                      | Some content \<Rightarrow> d1\<lparr>files := (files d1)(k \<mapsto> content)\<rparr>)
                else d1)
      in t\<lparr>disk := d2,
            effects := effects t @ [OpenOutput out, CopyStream tmp_out out]\<rparr>)"

subsection \<open>\<^verbatim>\<open>main_\<close>\<close>

definition main :: "env \<Rightarrow> tool \<Rightarrow> ExitCodes \<times> tool" where
  "main e t =
     (let in_file = getStringOption t ''in'';
          database = getStringOption t ''database'';
          out = getStringOption t ''out''
      in if in_file = [] then
           (ILLEGAL_PARAMETERS, writeLog ''Fatal error: no input file (spectra) given'' t)
         else if database = [] then
           (ILLEGAL_PARAMETERS, writeLog ''Fatal error: no database given'' t)
         else if out = [] then
           (ILLEGAL_PARAMETERS, writeLog ''Fatal error: no output file (results) given'' t)
         else
           let executable = getStringOption t ''executable''
           in if executable = [] then
                (MISSING_PARAMETERS,
                 writeLog (''FATAL: Executable of Dereplicator could not be found. '' @
                            ''Please either add it to PATH env variable or provide with -executable'') t)
              else
                let executable = canonicalFilePath e (disk t) executable;
                    (tmp_dir, t1) = makeAutoRemoveTempDirectory e t;
                    arguments = [in_file, ''-o'', tmp_dir, ''--db-path'', getStringOption t1 ''database''];
                    t2 = t1\<lparr>debug_level := 100, effects := effects t1 @ [SetDebugLevel 100]\<rparr>;
                    (exit_code, t3) = runExternalProcess e executable arguments t2
                in if exit_code \<noteq> EXECUTION_OK then (exit_code, t3)
                   else
                     let t4 = remove_file e out t3;
                         t5 = (if out \<noteq> [] then
                                 copy_stream e (tmp_dir @ ''significant_matches.tsv'') out t4
                               else t4);
                         t6 = writeLog (''Everything is fine! Results are in '' @ out) t5
                     in (EXECUTION_OK, t6))"

subsection \<open>The whole run\<close>

text \<open>
  Modelled from the spec: the teardown of the tool object is framework code outside the
  source at hand. When the operation ends, every directory registered by
  \<^verbatim>\<open>makeAutoRemoveTempDirectory_\<close> is removed with all it contains, whatever the
  outcome (section 4.1, step 3 and section 5 of the spec).
\<close>

definition removeTempDirectory :: "path \<Rightarrow> tool \<Rightarrow> tool" where
  "removeTempDirectory d t =
     t\<lparr>disk := \<lparr>files = (\<lambda>p. if prefix d p then None else files (disk t) p),
                dirs = Set.filter (\<lambda>x. \<not> prefix d x) (dirs (disk t))\<rparr>,
       effects := effects t @ [RemoveTempDir d]\<rparr>"

definition run :: "env \<Rightarrow> tool \<Rightarrow> ExitCodes \<times> tool" where
  "run e t =
     (let (exit_code, t') = main e t
      in (exit_code, (fold removeTempDirectory (temp_dirs t') t')\<lparr>temp_dirs := []\<rparr>))"

subsection \<open>Reading the trace\<close>

text \<open>The process launches of a trace, in order: executable and argument vector.\<close>

fun launches :: "effect list \<Rightarrow> (path \<times> string list) list" where
  "launches [] = []"
| "launches (RunExternalProcess executable arguments # xs) = (executable, arguments) # launches xs"
| "launches (x # xs) = launches xs"

subsection \<open>A concrete world\<close>

text \<open>
  The example scenario of the spec: \<^verbatim>\<open>in=sample.mzML\<close>, \<^verbatim>\<open>database=/db/nrps\<close>,
  \<^verbatim>\<open>out=results.tsv\<close>, and a tool that writes \<^verbatim>\<open>significant_matches.tsv\<close> with the
  content \<^verbatim>\<open>PeptideA<TAB>0.01<LF>\<close> into the directory it is given after \<^verbatim>\<open>-o\<close>.
\<close>

definition demo_content :: bytes where
  "demo_content = ''PeptideA'' @ [CHR 0x09] @ ''0.01'' @ [CHR 0x0A]"

text \<open>
  A canonicalisation that behaves as Qt documents it on a disk without links: the path
  itself when the file exists, the empty string when it does not.
\<close>

definition demo_canonical :: "filesystem \<Rightarrow> path \<Rightarrow> path" where
  "demo_canonical d p = (case files d p of None \<Rightarrow> [] | Some _ \<Rightarrow> p)"

text \<open>
  Three programs: one that writes its result file (and cannot be started from an empty
  path), one that reports success and writes nothing, and one that fails with status 3.
\<close>

definition demo_process :: "int \<Rightarrow> path \<Rightarrow> string list \<Rightarrow> filesystem \<Rightarrow> ExitCodes \<times> filesystem" where
  "demo_process dbg exe args d =
     (case args of
        [spectra, o_flag, work, db_flag, db] \<Rightarrow>
          if exe = [] then (ExternalProcessFailed 1, d)
          else (EXECUTION_OK,
                d\<lparr>files := (files d)(work @ ''significant_matches.tsv'' \<mapsto> demo_content)\<rparr>)
      | _ \<Rightarrow> (ExternalProcessFailed 2, d))"

definition silent_process :: "int \<Rightarrow> path \<Rightarrow> string list \<Rightarrow> filesystem \<Rightarrow> ExitCodes \<times> filesystem" where
  "silent_process dbg exe args d = (EXECUTION_OK, d)"

definition failing_process :: "int \<Rightarrow> path \<Rightarrow> string list \<Rightarrow> filesystem \<Rightarrow> ExitCodes \<times> filesystem" where
  "failing_process dbg exe args d = (ExternalProcessFailed 3, d)"

definition demo_tmp :: path where
  "demo_tmp = ''/tmp/20261030_120000_host_4242_1/''"

text \<open>
  On the demo disk every path resolves to itself, whatever \<^verbatim>\<open>remove\<close> is asked to
  delete may be deleted, and a path can be opened for writing when its directory part is
  empty (the working directory) or an existing directory.
\<close>

definition parent_dir :: "path \<Rightarrow> path" where
  "parent_dir p = rev (dropWhile (\<lambda>c. c \<noteq> CHR ''/'') (rev p))"

definition demo_writable :: "filesystem \<Rightarrow> path \<Rightarrow> bool" where
  "demo_writable d k = (parent_dir k = [] \<or> parent_dir k \<in> dirs d)"

definition demo_env :: env where
  "demo_env = \<lparr>canonicalFilePath = demo_canonical,
               uniqueTempDir = (\<lambda>d. demo_tmp),
               externalProcess = demo_process,
               resolve = (\<lambda>p. p),
               removable = (\<lambda>d k. True),
               writable = demo_writable\<rparr>"

definition silent_env :: env where
  "silent_env = demo_env\<lparr>externalProcess := silent_process\<rparr>"

definition failing_env :: env where
  "failing_env = demo_env\<lparr>externalProcess := failing_process\<rparr>"

definition demo_exe :: path where
  "demo_exe = ''/opt/npdtools/bin/dereplicator.py''"

text \<open>
  The disk holds the tool, an older \<^verbatim>\<open>results.tsv\<close> and, on the search path only, a
  second copy of the tool.
\<close>

definition demo_disk :: filesystem where
  "demo_disk =
     \<lparr>files = [demo_exe \<mapsto> ''#!/usr/bin/env python'',
               ''/usr/local/bin/dereplicator.py'' \<mapsto> ''#!/usr/bin/env python'',
               ''results.tsv'' \<mapsto> ''stale''],
      dirs = {''/tmp/''}\<rparr>"

definition demo_tool :: tool where
  "demo_tool =
     \<lparr>param = [''in'' \<mapsto> ''sample.mzML'', ''database'' \<mapsto> ''/db/nrps'',
                ''out'' \<mapsto> ''results.tsv'', ''executable'' \<mapsto> demo_exe],
      debug_level = 0,
      temp_dirs = [],
      disk = demo_disk,
      effects = []\<rparr>"

text \<open>The same call without \<^verbatim>\<open>-executable\<close>, and with one that is not on the disk.\<close>

definition default_exe_tool :: tool where
  "default_exe_tool =
     demo_tool\<lparr>param := [''in'' \<mapsto> ''sample.mzML'', ''database'' \<mapsto> ''/db/nrps'',
                          ''out'' \<mapsto> ''results.tsv'']\<rparr>"

definition absent_exe_tool :: tool where
  "absent_exe_tool =
     demo_tool\<lparr>param := (param demo_tool)(''executable'' \<mapsto> ''/nowhere/dereplicator.py'')\<rparr>"




text \<open>The same call without \<^verbatim>\<open>-database\<close>.\<close>

definition no_database_tool :: tool where
  "no_database_tool =
     demo_tool\<lparr>param := [''in'' \<mapsto> ''sample.mzML'', ''out'' \<mapsto> ''results.tsv'',
                          ''executable'' \<mapsto> demo_exe]\<rparr>"

section \<open>Basic facts\<close>

lemma getStringOption_frame [simp]:
  "getStringOption (t\<lparr>temp_dirs := ds, disk := d, effects := es\<rparr>) name = getStringOption t name"
  by (simp add: getStringOption_def)

lemma getStringOption_debug_level [simp]:
  "getStringOption (t\<lparr>debug_level := v\<rparr>) name = getStringOption t name"
  by (simp add: getStringOption_def)

lemma getStringOption_executable:
  "getStringOption t ''executable'' =
     (case param t ''executable'' of None \<Rightarrow> ''dereplicator.py'' | Some v \<Rightarrow> v)"
  by (simp add: getStringOption_def registerOptionsAndFlags_def split: option.splits)

lemma getStringOption_executable_empty:
  "getStringOption t ''executable'' = [] \<longleftrightarrow> param t ''executable'' = Some []"
  by (simp add: getStringOption_executable split: option.splits)

lemma launches_append [simp]: "launches (xs @ ys) = launches xs @ launches ys"
  by (induction xs rule: launches.induct) simp_all

text \<open>
  Past the four emptiness checks every run has the same first three effects; what follows
  them depends on the status of the process alone.
\<close>

lemma main_launch:
  assumes "getStringOption t ''in'' \<noteq> []" and "getStringOption t ''database'' \<noteq> []"
    and "getStringOption t ''out'' \<noteq> []" and "getStringOption t ''executable'' \<noteq> []"
  shows "\<exists>post. (post = [] \<or>
                post = [RemoveFile (getStringOption t ''out''),
                        OpenOutput (getStringOption t ''out''),
                        CopyStream (uniqueTempDir e (disk t) @ ''significant_matches.tsv'')
                                   (getStringOption t ''out''),
                        WriteLog (''Everything is fine! Results are in '' @ getStringOption t ''out'')]) \<and>
           effects (snd (main e t)) =
             effects t @
             [MakeTempDir (uniqueTempDir e (disk t)),
              SetDebugLevel 100,
              RunExternalProcess
                (canonicalFilePath e (disk t) (getStringOption t ''executable''))
                [getStringOption t ''in'', ''-o'', uniqueTempDir e (disk t), ''--db-path'',
                 getStringOption t ''database'']] @ post"
proof -
  obtain exit_code d where launched:
    "externalProcess e 100
       (canonicalFilePath e (disk t) (getStringOption t ''executable''))
       [getStringOption t ''in'', ''-o'', uniqueTempDir e (disk t), ''--db-path'',
        getStringOption t ''database'']
       ((disk t)\<lparr>dirs := insert (uniqueTempDir e (disk t)) (dirs (disk t))\<rparr>) = (exit_code, d)"
    by (cases "externalProcess e 100
       (canonicalFilePath e (disk t) (getStringOption t ''executable''))
       [getStringOption t ''in'', ''-o'', uniqueTempDir e (disk t), ''--db-path'',
        getStringOption t ''database'']
       ((disk t)\<lparr>dirs := insert (uniqueTempDir e (disk t)) (dirs (disk t))\<rparr>)")
  show ?thesis
  proof (cases "exit_code = EXECUTION_OK")
    case True
    with assms launched show ?thesis
      by (simp add: main_def Let_def makeAutoRemoveTempDirectory_def runExternalProcess_def
          remove_file_def os_remove_def copy_stream_def writeLog_def)
  next
    case False
    with assms launched show ?thesis
      by (simp add: main_def Let_def makeAutoRemoveTempDirectory_def runExternalProcess_def)
  qed
qed



lemma main_launch_prefix:
  assumes "getStringOption t ''in'' \<noteq> []" and "getStringOption t ''database'' \<noteq> []"
    and "getStringOption t ''out'' \<noteq> []" and "getStringOption t ''executable'' \<noteq> []"
  shows "prefix
          (effects t @
           [MakeTempDir (uniqueTempDir e (disk t)),
            SetDebugLevel 100,
            RunExternalProcess
              (canonicalFilePath e (disk t) (getStringOption t ''executable''))
              [getStringOption t ''in'', ''-o'', uniqueTempDir e (disk t), ''--db-path'',
               getStringOption t ''database'']])
          (effects (snd (main e t)))"
  using main_launch [OF assms, of e] by (auto simp add: prefix_def)

lemma main_debug_level:
  assumes "getStringOption t ''in'' \<noteq> []" and "getStringOption t ''database'' \<noteq> []"
    and "getStringOption t ''out'' \<noteq> []" and "getStringOption t ''executable'' \<noteq> []"
  shows "debug_level (snd (main e t)) = 100"
  using assms
  by (auto simp add: main_def Let_def makeAutoRemoveTempDirectory_def runExternalProcess_def
      remove_file_def os_remove_def copy_stream_def writeLog_def split: prod.splits)

lemma main_temp_dirs:
  assumes "getStringOption t ''in'' \<noteq> []" and "getStringOption t ''database'' \<noteq> []"
    and "getStringOption t ''out'' \<noteq> []" and "getStringOption t ''executable'' \<noteq> []"
  shows "temp_dirs (snd (main e t)) = temp_dirs t @ [uniqueTempDir e (disk t)]"
  using assms
  by (auto simp add: main_def Let_def makeAutoRemoveTempDirectory_def runExternalProcess_def
      remove_file_def os_remove_def copy_stream_def writeLog_def split: prod.splits)

lemma main_overrides_debug_level:
  assumes "getStringOption t ''in'' \<noteq> []" and "getStringOption t ''database'' \<noteq> []"
    and "getStringOption t ''out'' \<noteq> []" and "getStringOption t ''executable'' \<noteq> []"
  shows "main e (t\<lparr>debug_level := v\<rparr>) = main e (t\<lparr>debug_level := 100\<rparr>)"
  using assms
  by (auto simp add: main_def Let_def makeAutoRemoveTempDirectory_def runExternalProcess_def
      remove_file_def os_remove_def copy_stream_def writeLog_def split: prod.splits)

lemma main_missing_executable:
  assumes "getStringOption t ''in'' \<noteq> []" and "getStringOption t ''database'' \<noteq> []"
    and "getStringOption t ''out'' \<noteq> []" and "getStringOption t ''executable'' = []"
  shows "main e t =
           (MISSING_PARAMETERS,
            writeLog (''FATAL: Executable of Dereplicator could not be found. '' @
                      ''Please either add it to PATH env variable or provide with -executable'') t)"
  using assms by (simp add: main_def Let_def)

lemma main_missing_executable_only:
  assumes m: "main e t =
      (MISSING_PARAMETERS,
       writeLog (''FATAL: Executable of Dereplicator could not be found. '' @
                 ''Please either add it to PATH env variable or provide with -executable'') t)"
  shows "getStringOption t ''in'' \<noteq> [] \<and> getStringOption t ''database'' \<noteq> [] \<and>
         getStringOption t ''out'' \<noteq> [] \<and> getStringOption t ''executable'' = []"
proof -
  have i: "getStringOption t ''in'' \<noteq> []"
    using m by (auto simp add: main_def Let_def)
  have d: "getStringOption t ''database'' \<noteq> []"
    using m i by (auto simp add: main_def Let_def)
  have out: "getStringOption t ''out'' \<noteq> []"
    using m i d by (auto simp add: main_def Let_def)
  have "getStringOption t ''executable'' = []"
  proof (rule ccontr)
    assume x: "getStringOption t ''executable'' \<noteq> []"
    from main_launch [OF i d out x, of e] m show False
      by (auto simp add: writeLog_def)
  qed
  with i d out show ?thesis by simp
qed

section \<open>Validation of the required options\<close>

text \<open>
  Claim C4. Whenever \<^verbatim>\<open>in\<close>, \<^verbatim>\<open>database\<close> or \<^verbatim>\<open>out\<close> is empty, \<^verbatim>\<open>main_\<close> returns
  \<^verbatim>\<open>ILLEGAL_PARAMETERS\<close>, with the log line of the first empty option in the order
  \<^verbatim>\<open>in\<close>, \<^verbatim>\<open>database\<close>, \<^verbatim>\<open>out\<close>. The state it returns is the state it was given
  with that one log line appended to the trace: the disk is the same (no file deleted, no
  directory made), no temporary directory is registered, the debug level is untouched and
  no process was launched.
\<close>

theorem C4_missing_option_fails_fast:
  assumes "getStringOption t ''in'' = [] \<or> getStringOption t ''database'' = []
           \<or> getStringOption t ''out'' = []"
  shows "main e t =
           (ILLEGAL_PARAMETERS,
            t\<lparr>effects := effects t @
               [WriteLog (if getStringOption t ''in'' = []
                            then ''Fatal error: no input file (spectra) given''
                          else if getStringOption t ''database'' = []
                            then ''Fatal error: no database given''
                          else ''Fatal error: no output file (results) given'')]\<rparr>)"
  using assms by (auto simp add: main_def writeLog_def Let_def)

theorem C4_missing_option_fails_fast_witness:
  "getStringOption no_database_tool ''database'' = [] \<and>
   main demo_env no_database_tool =
     (ILLEGAL_PARAMETERS,
      no_database_tool\<lparr>effects := [WriteLog ''Fatal error: no database given'']\<rparr>)"
proof -
  have d: "getStringOption no_database_tool ''database'' = []"
    by (simp add: getStringOption_def registerOptionsAndFlags_def no_database_tool_def
        demo_tool_def)
  have i: "getStringOption no_database_tool ''in'' \<noteq> []"
    by (simp add: getStringOption_def registerOptionsAndFlags_def no_database_tool_def
        demo_tool_def)
  have none: "effects no_database_tool = []"
    by (simp add: no_database_tool_def demo_tool_def)
  from C4_missing_option_fails_fast [of no_database_tool demo_env] d i none
  show ?thesis by simp
qed

section \<open>Failure of the external process\<close>

text \<open>
  Claim C3. When the process runner reports a status other than \<^verbatim>\<open>EXECUTION_OK\<close>,
  \<^verbatim>\<open>main_\<close> returns that very status. The state it returns shows everything the
  adapter did: it registered the temporary directory, set the debug level, and launched the
  process once. The disk is the disk as the process left it: the adapter removed nothing and
  wrote nothing, so the file at \<^verbatim>\<open>out\<close> is neither deleted nor overwritten by it.
\<close>

theorem C3_process_failure_passed_through:
  fixes e :: env and t :: tool
  defines "tmp_dir \<equiv> uniqueTempDir e (disk t)"
    and "executable \<equiv> canonicalFilePath e (disk t) (getStringOption t ''executable'')"
    and "arguments \<equiv> [getStringOption t ''in'', ''-o'', uniqueTempDir e (disk t), ''--db-path'',
                       getStringOption t ''database'']"
  assumes "getStringOption t ''in'' \<noteq> []" and "getStringOption t ''database'' \<noteq> []"
    and "getStringOption t ''out'' \<noteq> []" and "getStringOption t ''executable'' \<noteq> []"
    and "externalProcess e 100 executable arguments
           ((disk t)\<lparr>dirs := insert tmp_dir (dirs (disk t))\<rparr>) = (exit_code, d)"
    and "exit_code \<noteq> EXECUTION_OK"
  shows "main e t =
           (exit_code,
            t\<lparr>debug_level := 100,
              temp_dirs := temp_dirs t @ [tmp_dir],
              disk := d,
              effects := effects t @
                [MakeTempDir tmp_dir, SetDebugLevel 100, RunExternalProcess executable arguments]\<rparr>)"
  using assms
  by (simp add: main_def Let_def makeAutoRemoveTempDirectory_def runExternalProcess_def)

theorem C3_process_failure_passed_through_witness:
  "main failing_env demo_tool =
     (ExternalProcessFailed 3,
      demo_tool\<lparr>debug_level := 100,
                temp_dirs := [demo_tmp],
                disk := demo_disk\<lparr>dirs := insert demo_tmp (dirs demo_disk)\<rparr>,
                effects := [MakeTempDir demo_tmp, SetDebugLevel 100,
                            RunExternalProcess demo_exe
                              [''sample.mzML'', ''-o'', demo_tmp, ''--db-path'', ''/db/nrps'']]\<rparr>)
   \<and> files (disk (snd (main failing_env demo_tool))) ''results.tsv'' = Some ''stale''"
proof -
  have i: "getStringOption demo_tool ''in'' = ''sample.mzML''"
    and d: "getStringOption demo_tool ''database'' = ''/db/nrps''"
    and out: "getStringOption demo_tool ''out'' = ''results.tsv''"
    and x: "getStringOption demo_tool ''executable'' = demo_exe"
    by (simp_all add: getStringOption_def demo_tool_def)
  have tmp: "uniqueTempDir failing_env (disk demo_tool) = demo_tmp"
    by (simp add: failing_env_def demo_env_def)
  have canon: "canonicalFilePath failing_env (disk demo_tool) demo_exe = demo_exe"
    by (simp add: failing_env_def demo_env_def demo_canonical_def demo_tool_def demo_disk_def)
  have launched:
    "externalProcess failing_env 100
       (canonicalFilePath failing_env (disk demo_tool) (getStringOption demo_tool ''executable''))
       [getStringOption demo_tool ''in'', ''-o'', uniqueTempDir failing_env (disk demo_tool),
        ''--db-path'', getStringOption demo_tool ''database'']
       ((disk demo_tool)\<lparr>dirs := insert (uniqueTempDir failing_env (disk demo_tool))
                                     (dirs (disk demo_tool))\<rparr>)
     = (ExternalProcessFailed 3, demo_disk\<lparr>dirs := insert demo_tmp (dirs demo_disk)\<rparr>)"
    by (simp add: failing_env_def demo_env_def failing_process_def demo_tool_def)
  have stale: "files demo_disk ''results.tsv'' = Some ''stale''"
    by (simp add: demo_disk_def demo_exe_def)
  from C3_process_failure_passed_through [OF _ _ _ _ launched] i d out x tmp canon stale
  show ?thesis by (simp add: demo_exe_def demo_tool_def)
qed

section \<open>Copying the result file\<close>




section \<open>The launch of the external process\<close>

text \<open>
  Claim C5. Every run that passes the four emptiness checks launches the process exactly
  once, and the argument vector of that launch is the value of \<^verbatim>\<open>in\<close>, \<^verbatim>\<open>-o\<close>, the
  temporary directory, \<^verbatim>\<open>--db-path\<close> and the value of \<^verbatim>\<open>database\<close>, in this order
  and with nothing else. The vector is built from the parsed parameter map alone, which
  keeps no trace of the order of the command line.
\<close>

theorem C5_argument_vector:
  assumes "getStringOption t ''in'' \<noteq> []" and "getStringOption t ''database'' \<noteq> []"
    and "getStringOption t ''out'' \<noteq> []" and "getStringOption t ''executable'' \<noteq> []"
  shows "launches (effects (snd (main e t))) =
           launches (effects t) @
           [(canonicalFilePath e (disk t) (getStringOption t ''executable''),
             [getStringOption t ''in'', ''-o'', uniqueTempDir e (disk t), ''--db-path'',
              getStringOption t ''database''])]"
  using main_launch [OF assms, of e] by auto

theorem C5_argument_vector_witness:
  "launches (effects (snd (main demo_env demo_tool))) =
     [(demo_exe, [''sample.mzML'', ''-o'', demo_tmp, ''--db-path'', ''/db/nrps''])]"
proof -
  have i: "getStringOption demo_tool ''in'' = ''sample.mzML''"
    and d: "getStringOption demo_tool ''database'' = ''/db/nrps''"
    and out: "getStringOption demo_tool ''out'' = ''results.tsv''"
    and x: "getStringOption demo_tool ''executable'' = demo_exe"
    by (simp_all add: getStringOption_def demo_tool_def)
  have nonempty: "getStringOption demo_tool ''in'' \<noteq> []" "getStringOption demo_tool ''database'' \<noteq> []"
    "getStringOption demo_tool ''out'' \<noteq> []" "getStringOption demo_tool ''executable'' \<noteq> []"
    by (simp_all add: i d out x demo_exe_def)
  have tmp: "uniqueTempDir demo_env (disk demo_tool) = demo_tmp"
    by (simp add: demo_env_def)
  have canon: "canonicalFilePath demo_env (disk demo_tool) demo_exe = demo_exe"
    by (simp add: demo_env_def demo_canonical_def demo_tool_def demo_disk_def)
  have none: "effects demo_tool = []"
    by (simp add: demo_tool_def)
  from C5_argument_vector [OF nonempty, of demo_env] i d x tmp canon none
  show ?thesis by simp
qed

text \<open>
  Claim C9. Every run that passes the four emptiness checks ends with the debug level at
  100, whatever the level was and whatever the process reports; the assignment is the effect
  that directly precedes the launch; and the run is the same as if the level had been 100
  from the start, so the level the user configured has no influence on it.
\<close>

theorem C9_debug_level_forced:
  assumes "getStringOption t ''in'' \<noteq> []" and "getStringOption t ''database'' \<noteq> []"
    and "getStringOption t ''out'' \<noteq> []" and "getStringOption t ''executable'' \<noteq> []"
  shows "debug_level (snd (main e t)) = 100 \<and>
         main e (t\<lparr>debug_level := v\<rparr>) = main e (t\<lparr>debug_level := 100\<rparr>) \<and>
         prefix
           (effects t @
            [MakeTempDir (uniqueTempDir e (disk t)),
             SetDebugLevel 100,
             RunExternalProcess
               (canonicalFilePath e (disk t) (getStringOption t ''executable''))
               [getStringOption t ''in'', ''-o'', uniqueTempDir e (disk t), ''--db-path'',
                getStringOption t ''database'']])
           (effects (snd (main e t)))"
  using main_debug_level [OF assms] main_overrides_debug_level [OF assms]
    main_launch_prefix [OF assms]
  by simp

theorem C9_debug_level_forced_witness:
  "debug_level demo_tool = 0 \<and>
   debug_level (snd (main failing_env demo_tool)) = 100 \<and>
   main failing_env (demo_tool\<lparr>debug_level := 3\<rparr>) = main failing_env (demo_tool\<lparr>debug_level := 100\<rparr>) \<and>
   prefix
     [MakeTempDir demo_tmp, SetDebugLevel 100,
      RunExternalProcess demo_exe [''sample.mzML'', ''-o'', demo_tmp, ''--db-path'', ''/db/nrps'']]
     (effects (snd (main failing_env demo_tool)))"
proof -
  have i: "getStringOption demo_tool ''in'' = ''sample.mzML''"
    and d: "getStringOption demo_tool ''database'' = ''/db/nrps''"
    and out: "getStringOption demo_tool ''out'' = ''results.tsv''"
    and x: "getStringOption demo_tool ''executable'' = demo_exe"
    by (simp_all add: getStringOption_def demo_tool_def)
  have nonempty: "getStringOption demo_tool ''in'' \<noteq> []" "getStringOption demo_tool ''database'' \<noteq> []"
    "getStringOption demo_tool ''out'' \<noteq> []" "getStringOption demo_tool ''executable'' \<noteq> []"
    by (simp_all add: i d out x demo_exe_def)
  have tmp: "uniqueTempDir failing_env (disk demo_tool) = demo_tmp"
    by (simp add: failing_env_def demo_env_def)
  have canon: "canonicalFilePath failing_env (disk demo_tool) demo_exe = demo_exe"
    by (simp add: failing_env_def demo_env_def demo_canonical_def demo_tool_def demo_disk_def)
  have start: "effects demo_tool = []" "debug_level demo_tool = 0"
    by (simp_all add: demo_tool_def)
  from C9_debug_level_forced [OF nonempty, of failing_env 3] i d x tmp canon start
  show ?thesis by simp
qed

section \<open>The executable\<close>

text \<open>
  Claim C10. \<^verbatim>\<open>main_\<close> takes the missing-executable exit exactly when the three required
  options are non-empty and the user gave the empty string as \<^verbatim>\<open>executable\<close>. With
  anything else, that is with no value (the default \<^verbatim>\<open>dereplicator.py\<close> applies) or
  with a non-empty value, the run goes on to the launch, and the executable handed to the
  process runner is the canonical path of that value, whatever it is; it is the empty
  string when canonicalisation yields the empty string.
\<close>

theorem C10_missing_executable_branch:
  "(main e t =
      (MISSING_PARAMETERS,
       writeLog (''FATAL: Executable of Dereplicator could not be found. '' @
                 ''Please either add it to PATH env variable or provide with -executable'') t)
    \<longleftrightarrow> getStringOption t ''in'' \<noteq> [] \<and> getStringOption t ''database'' \<noteq> [] \<and>
        getStringOption t ''out'' \<noteq> [] \<and> param t ''executable'' = Some [])
   \<and>
   (getStringOption t ''in'' \<noteq> [] \<and> getStringOption t ''database'' \<noteq> [] \<and>
    getStringOption t ''out'' \<noteq> [] \<and> param t ''executable'' \<noteq> Some []
    \<longrightarrow> prefix
          (effects t @
           [MakeTempDir (uniqueTempDir e (disk t)),
            SetDebugLevel 100,
            RunExternalProcess
              (canonicalFilePath e (disk t)
                 (case param t ''executable'' of None \<Rightarrow> ''dereplicator.py'' | Some v \<Rightarrow> v))
              [getStringOption t ''in'', ''-o'', uniqueTempDir e (disk t), ''--db-path'',
               getStringOption t ''database'']])
          (effects (snd (main e t))))"
  (is "(?taken \<longleftrightarrow> ?empty) \<and> (?given \<longrightarrow> ?launched)")
proof -
  have "?taken \<Longrightarrow> ?empty"
    using main_missing_executable_only [of e t]
    by (simp add: getStringOption_executable_empty)
  moreover have "?empty \<Longrightarrow> ?taken"
    by (simp add: main_missing_executable getStringOption_executable_empty)
  moreover have "?given \<Longrightarrow> ?launched"
    using main_launch_prefix [of t e]
    by (simp add: getStringOption_executable_empty getStringOption_executable [symmetric])
  ultimately show ?thesis by blast
qed

theorem C10_missing_executable_branch_witness:
  "param default_exe_tool ''executable'' \<noteq> Some [] \<and>
   canonicalFilePath demo_env (disk default_exe_tool) ''dereplicator.py'' = [] \<and>
   main demo_env default_exe_tool \<noteq>
      (MISSING_PARAMETERS,
       writeLog (''FATAL: Executable of Dereplicator could not be found. '' @
                 ''Please either add it to PATH env variable or provide with -executable'')
         default_exe_tool) \<and>
   prefix
     [MakeTempDir demo_tmp, SetDebugLevel 100,
      RunExternalProcess [] [''sample.mzML'', ''-o'', demo_tmp, ''--db-path'', ''/db/nrps'']]
     (effects (snd (main demo_env default_exe_tool)))"
  using C10_missing_executable_branch [of demo_env default_exe_tool]
  by (simp add: getStringOption_def registerOptionsAndFlags_def default_exe_tool_def demo_tool_def
      demo_env_def demo_canonical_def demo_disk_def demo_exe_def)

text \<open>
  Claim C6 says that a run whose executable resolves to an empty path fails with the
  missing-executable status before a temporary directory is made. \<^verbatim>\<open>main_\<close> tests the
  option string before it canonicalises it and never looks at the canonical path. Here
  \<^verbatim>\<open>-executable /nowhere/dereplicator.py\<close> names no file: the canonical path is empty, the
  temporary directory is made, the process runner is called with the empty path, and the
  status returned is the runner's, not \<^verbatim>\<open>MISSING_PARAMETERS\<close>.
\<close>

theorem C6_absent_executable_is_launched:
  "files (disk absent_exe_tool) ''/nowhere/dereplicator.py'' = None \<and>
   canonicalFilePath demo_env (disk absent_exe_tool) ''/nowhere/dereplicator.py'' = [] \<and>
   main demo_env absent_exe_tool =
     (ExternalProcessFailed 1,
      absent_exe_tool\<lparr>debug_level := 100,
                      temp_dirs := [demo_tmp],
                      disk := demo_disk\<lparr>dirs := insert demo_tmp (dirs demo_disk)\<rparr>,
                      effects := [MakeTempDir demo_tmp, SetDebugLevel 100,
                                  RunExternalProcess []
                                    [''sample.mzML'', ''-o'', demo_tmp, ''--db-path'', ''/db/nrps'']]\<rparr>)"
  by (simp add: main_def Let_def getStringOption_def makeAutoRemoveTempDirectory_def
      runExternalProcess_def absent_exe_tool_def
      demo_env_def demo_process_def demo_canonical_def
      demo_tool_def demo_disk_def demo_exe_def)

text \<open>
  Claim C7 says that the default \<^verbatim>\<open>dereplicator.py\<close> is looked up on the search path
  and that a run whose executable cannot be located fails with the missing-executable
  status. Here \<^verbatim>\<open>-executable\<close> is not given and \<^verbatim>\<open>dereplicator.py\<close> exists in
  \<^verbatim>\<open>/usr/local/bin\<close> but not in the working directory: the default applies, its
  canonical path is empty, and the one launch of the run is that of the empty path.
\<close>

theorem C7_default_executable_not_searched:
  "param default_exe_tool ''executable'' = None \<and>
   getStringOption default_exe_tool ''executable'' = ''dereplicator.py'' \<and>
   files (disk default_exe_tool) ''/usr/local/bin/dereplicator.py'' = Some ''#!/usr/bin/env python'' \<and>
   fst (main demo_env default_exe_tool) = ExternalProcessFailed 1 \<and>
   launches (effects (snd (main demo_env default_exe_tool))) =
     [([], [''sample.mzML'', ''-o'', demo_tmp, ''--db-path'', ''/db/nrps''])]"
  by (simp add: main_def Let_def getStringOption_def registerOptionsAndFlags_def
      makeAutoRemoveTempDirectory_def runExternalProcess_def default_exe_tool_def
      demo_env_def demo_process_def demo_canonical_def
      demo_tool_def demo_disk_def demo_exe_def)

section \<open>A run without a result file\<close>

text \<open>
  Claim C2 says that a run in which the process succeeds but leaves no
  \<^verbatim>\<open>significant_matches.tsv\<close> ends with an error of its own and without an empty file at
  \<^verbatim>\<open>out\<close>. Here the process reports success and writes nothing: \<^verbatim>\<open>main_\<close> returns
  \<^verbatim>\<open>EXECUTION_OK\<close>, the older \<^verbatim>\<open>results.tsv\<close> is replaced by an empty file, and the
  last log line says that everything is fine.
\<close>

theorem C2_missing_result_file_goes_unnoticed:
  "files demo_disk (demo_tmp @ ''significant_matches.tsv'') = None \<and>
   main silent_env demo_tool =
     (EXECUTION_OK,
      demo_tool\<lparr>debug_level := 100,
                temp_dirs := [demo_tmp],
                disk := \<lparr>files = (files demo_disk)(''results.tsv'' \<mapsto> []),
                         dirs = insert demo_tmp (dirs demo_disk)\<rparr>,
                effects := [MakeTempDir demo_tmp, SetDebugLevel 100,
                            RunExternalProcess demo_exe
                              [''sample.mzML'', ''-o'', demo_tmp, ''--db-path'', ''/db/nrps''],
                            RemoveFile ''results.tsv'', OpenOutput ''results.tsv'',
                            CopyStream (demo_tmp @ ''significant_matches.tsv'') ''results.tsv'',
                            WriteLog ''Everything is fine! Results are in results.tsv'']\<rparr>)"
  by (simp add: main_def Let_def getStringOption_def makeAutoRemoveTempDirectory_def
      runExternalProcess_def remove_file_def os_remove_def copy_stream_def writeLog_def
      silent_env_def demo_env_def silent_process_def demo_canonical_def
      demo_writable_def parent_dir_def
      demo_tool_def demo_disk_def demo_exe_def demo_tmp_def)

section \<open>The temporary directory at the end of the run\<close>

text \<open>
  Removing a directory never brings a file or a directory back, so after the teardown
  every registered directory is gone together with all that lies below it.
\<close>

lemma removeTempDirectory_keeps_absent:
  "files (disk t) p = None \<Longrightarrow> files (disk (removeTempDirectory d t)) p = None"
  "x \<notin> dirs (disk t) \<Longrightarrow> x \<notin> dirs (disk (removeTempDirectory d t))"
  by (simp_all add: removeTempDirectory_def)

lemma fold_removeTempDirectory_keeps_absent:
  "files (disk t) p = None \<Longrightarrow> files (disk (fold removeTempDirectory ds t)) p = None"
  "x \<notin> dirs (disk t) \<Longrightarrow> x \<notin> dirs (disk (fold removeTempDirectory ds t))"
  by (induction ds arbitrary: t) (simp_all add: removeTempDirectory_keeps_absent)

lemma fold_removeTempDirectory_removes:
  assumes "d \<in> set ds" and "prefix d p"
  shows "files (disk (fold removeTempDirectory ds t)) p = None"
    and "p \<notin> dirs (disk (fold removeTempDirectory ds t))"
  using assms
proof (induction ds arbitrary: t)
  case Nil
  { case 1 then show ?case by simp }
  { case 2 then show ?case by simp }
next
  case (Cons a ds)
  { case 1
    show ?case
    proof (cases "a = d")
      case True
      with 1 have "files (disk (removeTempDirectory a t)) p = None"
        by (simp add: removeTempDirectory_def)
      then show ?thesis by (simp add: fold_removeTempDirectory_keeps_absent)
    next
      case False
      with 1 have "d \<in> set ds" by simp
      with Cons.IH(1) 1 show ?thesis by simp
    qed }
  { case 2
    show ?case
    proof (cases "a = d")
      case True
      with 2 have "p \<notin> dirs (disk (removeTempDirectory a t))"
        by (simp add: removeTempDirectory_def)
      then show ?thesis by (simp add: fold_removeTempDirectory_keeps_absent)
    next
      case False
      with 2 have "d \<in> set ds" by simp
      with Cons.IH(2) 2 show ?thesis by simp
    qed }
qed

lemma run_unfold:
  "run e t = (fst (main e t),
              (fold removeTempDirectory (temp_dirs (snd (main e t))) (snd (main e t)))\<lparr>temp_dirs := []\<rparr>)"
  by (simp add: run_def split: prod.splits)

text \<open>
  Claim C8. A run that passes the four emptiness checks makes one temporary directory. When
  \<^verbatim>\<open>run\<close> returns, with the status of \<^verbatim>\<open>main_\<close> whatever that is, the directory is not
  on the disk, no file below it is on the disk, and nothing is left registered. Runs that
  stop at an emptiness check make no directory (claim C4). The teardown itself is modelled
  from the spec.
\<close>

theorem C8_temp_dir_removed:
  assumes "getStringOption t ''in'' \<noteq> []" and "getStringOption t ''database'' \<noteq> []"
    and "getStringOption t ''out'' \<noteq> []" and "getStringOption t ''executable'' \<noteq> []"
  shows "fst (run e t) = fst (main e t) \<and>
         temp_dirs (snd (run e t)) = [] \<and>
         uniqueTempDir e (disk t) \<notin> dirs (disk (snd (run e t))) \<and>
         (\<forall>p. prefix (uniqueTempDir e (disk t)) p \<longrightarrow> files (disk (snd (run e t))) p = None)"
proof -
  have "uniqueTempDir e (disk t) \<in> set (temp_dirs (snd (main e t)))"
    using assms by (simp add: main_temp_dirs)
  then show ?thesis
    by (simp add: run_unfold fold_removeTempDirectory_removes)
qed

theorem C8_temp_dir_removed_witness:
  "fst (run demo_env demo_tool) = EXECUTION_OK \<and>
   demo_tmp \<notin> dirs (disk (snd (run demo_env demo_tool))) \<and>
   files (disk (snd (run demo_env demo_tool))) (demo_tmp @ ''significant_matches.tsv'') = None \<and>
   fst (run failing_env demo_tool) = ExternalProcessFailed 3 \<and>
   demo_tmp \<notin> dirs (disk (snd (run failing_env demo_tool))) \<and>
   temp_dirs (snd (run failing_env demo_tool)) = []"
proof -
  have i: "getStringOption demo_tool ''in'' = ''sample.mzML''"
    and d: "getStringOption demo_tool ''database'' = ''/db/nrps''"
    and out: "getStringOption demo_tool ''out'' = ''results.tsv''"
    and x: "getStringOption demo_tool ''executable'' = demo_exe"
    by (simp_all add: getStringOption_def demo_tool_def)
  have nonempty: "getStringOption demo_tool ''in'' \<noteq> []" "getStringOption demo_tool ''database'' \<noteq> []"
    "getStringOption demo_tool ''out'' \<noteq> []" "getStringOption demo_tool ''executable'' \<noteq> []"
    by (simp_all add: i d out x demo_exe_def)
  have tmp: "uniqueTempDir demo_env (disk demo_tool) = demo_tmp"
    "uniqueTempDir failing_env (disk demo_tool) = demo_tmp"
    by (simp_all add: failing_env_def demo_env_def)
  have inside: "prefix demo_tmp (demo_tmp @ ''significant_matches.tsv'')"
    by simp
  have ok: "fst (main demo_env demo_tool) = EXECUTION_OK"
    by (simp add: main_def Let_def getStringOption_def makeAutoRemoveTempDirectory_def
        runExternalProcess_def demo_env_def demo_process_def demo_canonical_def demo_tool_def
        demo_disk_def demo_exe_def)
  have failed: "fst (main failing_env demo_tool) = ExternalProcessFailed 3"
    by (simp add: main_def Let_def getStringOption_def makeAutoRemoveTempDirectory_def
        runExternalProcess_def failing_env_def demo_env_def failing_process_def demo_tool_def
        demo_exe_def)
  from C8_temp_dir_removed [OF nonempty, of demo_env]
    C8_temp_dir_removed [OF nonempty, of failing_env] tmp inside ok failed
  show ?thesis by simp
qed

end
